theory Spec2Isabelle
  imports Main "HOL-Library.AList"
begin

section \<open>JavaScript values\<close>

text \<open>
  The module \<^verbatim>\<open>lib/cas-authentication.js\<close> is dynamically typed: option values, decoded
  XML documents, session fields and query parameters are arbitrary JavaScript values.
  They are embedded as the datatype \<open>jsval\<close>. An object is the list of its own
  properties in insertion order, a property read takes the first entry with the key.
  Numbers are the integer-valued ones. Inherited properties of the built-in prototypes
  are not part of the model.
\<close>

datatype jsval =
    JUndefined
  | JNull
  | JBool bool
  | JNum int
  | JStr string
  | JArr "jsval list"
  | JObj "(string \<times> jsval) list"

type_synonym js_object = "(string \<times> jsval) list"

text \<open>Exceptions: \<^verbatim>\<open>new Error(msg)\<close> and the \<^verbatim>\<open>TypeError\<close> of the runtime.\<close>

datatype js_error = JsError string | JsTypeError

text \<open>\<^verbatim>\<open>if (v)\<close>, \<^verbatim>\<open>!v\<close>, \<^verbatim>\<open>a || b\<close>: the falsy values are undefined, null, false, 0 and "".\<close>

fun truthy :: "jsval \<Rightarrow> bool" where
  "truthy JUndefined = False"
| "truthy JNull = False"
| "truthy (JBool b) = b"
| "truthy (JNum n) = (n \<noteq> 0)"
| "truthy (JStr s) = (s \<noteq> [])"
| "truthy (JArr xs) = True"
| "truthy (JObj kvs) = True"

definition js_or :: "jsval \<Rightarrow> jsval \<Rightarrow> jsval" where
  "js_or a b = (if truthy a then a else b)"

fun js_typeof :: "jsval \<Rightarrow> string" where
  "js_typeof JUndefined = ''undefined''"
| "js_typeof JNull = ''object''"
| "js_typeof (JBool b) = ''boolean''"
| "js_typeof (JNum n) = ''number''"
| "js_typeof (JStr s) = ''string''"
| "js_typeof (JArr xs) = ''object''"
| "js_typeof (JObj kvs) = ''object''"

fun nullish :: "jsval \<Rightarrow> bool" where
  "nullish JUndefined = True"
| "nullish JNull = True"
| "nullish v = False"

subsection \<open>Conversion to string\<close>

fun digit_chars :: "nat \<Rightarrow> string" where
  "digit_chars n =
     (if n < 10 then [''0123456789'' ! n]
      else digit_chars (n div 10) @ [''0123456789'' ! (n mod 10)])"

declare digit_chars.simps [simp del]

fun join_comma :: "string list \<Rightarrow> string" where
  "join_comma [] = []"
| "join_comma [s] = s"
| "join_comma (s # t # ss) = s @ '','' @ join_comma (t # ss)"

text \<open>
  \<^verbatim>\<open>String(v)\<close>, as applied by \<^verbatim>\<open>v + "..."\<close>, by a computed property key and by
  \<^verbatim>\<open>URLSearchParams.set\<close>. An array joins its elements with commas, null and
  undefined elements printing as the empty string.
\<close>

fun js_to_string :: "jsval \<Rightarrow> string"
  and js_elem_strings :: "jsval list \<Rightarrow> string list" where
  "js_to_string JUndefined = ''undefined''"
| "js_to_string JNull = ''null''"
| "js_to_string (JBool b) = (if b then ''true'' else ''false'')"
| "js_to_string (JNum n) =
     (if n < 0 then ''-'' @ digit_chars (nat (- n)) else digit_chars (nat n))"
| "js_to_string (JStr s) = s"
| "js_to_string (JArr xs) = join_comma (js_elem_strings xs)"
| "js_to_string (JObj kvs) = ''[object Object]''"
| "js_elem_strings [] = []"
| "js_elem_strings (x # xs) =
     (if nullish x then [] else js_to_string x) # js_elem_strings xs"

subsection \<open>Properties\<close>

text \<open>
  The own enumerable properties of a value: the entries of an object, the indexed
  elements of an array, the indexed characters of a string, none for a number or a
  boolean.
\<close>

fun own_entries :: "jsval \<Rightarrow> js_object" where
  "own_entries (JObj kvs) = kvs"
| "own_entries (JArr xs) = zip (map digit_chars [0..<length xs]) xs"
| "own_entries (JStr s) = zip (map digit_chars [0..<length s]) (map (\<lambda>c. JStr [c]) s)"
| "own_entries v = []"

text \<open>\<^verbatim>\<open>o.k\<close> and \<^verbatim>\<open>o[k]\<close> on an object: undefined when the key is missing.\<close>

definition field :: "js_object \<Rightarrow> string \<Rightarrow> jsval" where
  "field kvs k = (case map_of kvs k of Some v \<Rightarrow> v | None \<Rightarrow> JUndefined)"

text \<open>
  \<^verbatim>\<open>v[k]\<close> on a value that is neither undefined nor null; strings and arrays have
  their \<open>length\<close> besides the indexed properties.
\<close>

definition js_prop :: "jsval \<Rightarrow> string \<Rightarrow> jsval" where
  "js_prop v k =
     (case map_of (own_entries v) k of
        Some x \<Rightarrow> x
      | None \<Rightarrow>
          (case v of
             JStr s \<Rightarrow> if k = ''length'' then JNum (int (length s)) else JUndefined
           | JArr xs \<Rightarrow> if k = ''length'' then JNum (int (length xs)) else JUndefined
           | _ \<Rightarrow> JUndefined))"

text \<open>
  \<^verbatim>\<open>v.k\<close> on any value: reading a property of undefined or null throws a TypeError.
\<close>

definition js_get :: "jsval \<Rightarrow> string \<Rightarrow> js_error + jsval" where
  "js_get v k = (if nullish v then Inl JsTypeError else Inr (js_prop v k))"

text \<open>\<^verbatim>\<open>Object.keys(v)\<close>: throws a TypeError on undefined and null.\<close>

definition object_keys :: "jsval \<Rightarrow> js_error + string list" where
  "object_keys v = (if nullish v then Inl JsTypeError else Inr (map fst (own_entries v)))"

text \<open>\<^verbatim>\<open>Object.prototype.hasOwnProperty.call(o, k)\<close> on an object.\<close>

definition has_own :: "js_object \<Rightarrow> string \<Rightarrow> bool" where
  "has_own kvs k = (k \<in> fst ` set kvs)"

section \<open>The module state\<close>

text \<open>
  The module keeps one shared \<^verbatim>\<open>options\<close> object, created with these nine properties.
  Every function below that reads it takes it as the argument \<open>options\<close>; the one
  that writes it returns the new object.
\<close>

definition options_init :: js_object where
  "options_init =
     [(''casServer'', JNull),
      (''serviceUrl'', JNull),
      (''sessionInfo'', JStr ''cas_userinfo''),
      (''sessionName'', JStr ''cas_user''),
      (''cas_version'', JStr ''2.0''),
      (''renew'', JBool False),
      (''destroy_session'', JBool False),
      (''devMode'', JBool False),
      (''devModeUser'', JNull)]"

section \<open>Promises and the XML decoder\<close>

text \<open>
  What a promise is rejected with: an exception object or a plain value. What running
  a callback does: it resolves the promise, it rejects it, or it throws.
\<close>

datatype reason = Exn js_error | Val jsval

datatype outcome = Resolve jsval | Reject reason | Throw js_error

text \<open>
  \<^verbatim>\<open>parseString\<close> of the package xml2js is not part of the repository. It is a
  parameter: the pair \<open>(err, result)\<close> that it hands to its callback for a document.
\<close>

type_synonym xml_parser = "string \<Rightarrow> jsval \<times> jsval"

definition reading :: "js_error + jsval \<Rightarrow> (jsval \<Rightarrow> outcome) \<Rightarrow> outcome" where
  "reading r f = (case r of Inl e \<Rightarrow> Throw e | Inr v \<Rightarrow> f v)"

section \<open>validateTicket\<close>

definition validateTicket_callback :: "jsval \<Rightarrow> jsval \<Rightarrow> outcome" where
  "validateTicket_callback err result =
     (if truthy err then Reject (Exn (JsError ''Response from CAS server was bad.''))
      else
        reading (js_get result ''serviceresponse'') (\<lambda>serviceresponse.
        reading (js_get serviceresponse ''authenticationfailure'') (\<lambda>failure.
          if truthy failure then
            reading (js_get failure ''$'') (\<lambda>attrs.
            reading (js_get attrs ''code'') (\<lambda>code.
            reading (js_get failure ''_'') (\<lambda>text.
              Reject (Val (JObj
                [(''errorMessage'', JStr ''CAS authentication failed''),
                 (''code'', code),
                 (''description'', text)])))))
          else
            reading (js_get serviceresponse ''authenticationsuccess'') (\<lambda>success.
              if truthy success then
                reading (js_get success ''user'') (\<lambda>user.
                reading (js_get success ''attributes'') (\<lambda>attributes.
                  Resolve (JObj [(''user'', user), (''attributes'', attributes)])))
              else Reject (Exn (JsError ''CAS authentication failed.''))))))"

text \<open>
  The callback runs inside the executor of \<^verbatim>\<open>new Promise\<close>: the decoder is called in
  its synchronous mode and lets an exception of the callback pass, and the executor
  turns an exception that reaches it into a rejection of the promise with that
  exception. So the promise that validateTicket returns is resolved or rejected, and
  nothing is thrown to the caller.
\<close>

definition new_Promise :: "outcome \<Rightarrow> outcome" where
  "new_Promise executed =
     (case executed of Throw e \<Rightarrow> Reject (Exn e) | settled \<Rightarrow> settled)"

definition validateTicket :: "xml_parser \<Rightarrow> string \<Rightarrow> outcome" where
  "validateTicket parseXML body =
     (case parseXML body of
        (err, result) \<Rightarrow> new_Promise (validateTicket_callback err result))"

section \<open>getTicketFromLogoutRequest\<close>

text \<open>
  The body of the \<^verbatim>\<open>try\<close> block: \<open>Inl\<close> is an exception raised inside it. The
  \<^verbatim>\<open>catch\<close> takes every one of them, so this callback never throws.
\<close>

definition logoutRequest_try :: "jsval \<Rightarrow> js_error + outcome" where
  "logoutRequest_try result =
     (case js_get result ''logoutrequest'' of
        Inl e \<Rightarrow> Inl e
      | Inr logoutrequest \<Rightarrow>
          (case js_get logoutrequest ''sessionindex'' of
             Inl e \<Rightarrow> Inl e
           | Inr serviceTicket \<Rightarrow>
               Inr (if truthy serviceTicket then Resolve serviceTicket
                    else Reject (Val (JObj
                      [(''errorMessage'', JStr ''no valid CAS logout document''),
                       (''code'', JStr ''NO_VALID_CAS_LOGOUT''),
                       (''description'',
                        JStr ''service ticket could not be found in the XML logout document'')])))))"

definition getTicketFromLogoutRequest_callback :: "jsval \<Rightarrow> jsval \<Rightarrow> outcome" where
  "getTicketFromLogoutRequest_callback err result =
     (if truthy err then Reject (Exn (JsError ''Response from CAS server was bad.''))
      else
        (case logoutRequest_try result of
           Inr out \<Rightarrow> out
         | Inl e \<Rightarrow> Reject (Exn (JsError ''CAS authentication failed.''))))"

definition getTicketFromLogoutRequest :: "xml_parser \<Rightarrow> string \<Rightarrow> outcome" where
  "getTicketFromLogoutRequest parseXML body =
     (case parseXML body of (err, result) \<Rightarrow> getTicketFromLogoutRequest_callback err result)"

section \<open>Requests, responses and URLs\<close>

record request =
  session :: js_object
  query :: js_object
  originalUrl :: jsval

text \<open>
  The platform's \<^verbatim>\<open>URL\<close> object of a hierarchical URL: everything before the path, the
  path, the query as the list of its name and value pairs, and the fragment.
  \<^verbatim>\<open>new URL(s)\<close> is a parameter, \<open>None\<close> when it throws its TypeError.
\<close>

record url =
  origin :: string
  pathname :: string
  searchParams :: "(string \<times> string) list"
  hash :: string

type_synonym url_parser = "string \<Rightarrow> url option"

text \<open>
  \<^verbatim>\<open>URLSearchParams.set\<close>: the first pair with the name takes the value and the later
  ones are removed; without such a pair, one is appended.
\<close>

fun searchParams_set :: "string \<Rightarrow> string \<Rightarrow> (string \<times> string) list \<Rightarrow> (string \<times> string) list" where
  "searchParams_set k v [] = [(k, v)]"
| "searchParams_set k v ((k', v') # ps) =
     (if k' = k then (k, v) # filter (\<lambda>p. fst p \<noteq> k) ps
      else (k', v') # searchParams_set k v ps)"

definition endsWith :: "string \<Rightarrow> string \<Rightarrow> bool" where
  "endsWith s t = (length t \<le> length s \<and> drop (length s - length t) s = t)"

text \<open>\<^verbatim>\<open>res.redirect\<close> with a value, or with the \<^verbatim>\<open>href\<close> of a URL object.\<close>

datatype response = Redirect jsval | RedirectHref url

text \<open>
  \<^verbatim>\<open>checkSession\<close> of \<^verbatim>\<open>cas-helper-functions\<close> is not among the sources. It is a
  parameter: it throws, or it returns and leaves a request behind.
\<close>

type_synonym session_check = "request \<Rightarrow> js_error + request"

section \<open>login and bounce_redirect\<close>

definition login ::
  "session_check \<Rightarrow> url_parser \<Rightarrow> js_object \<Rightarrow> request \<Rightarrow> request \<times> (js_error + response)" where
  "login checkSession newURL options req0 =
     (case checkSession req0 of
        Inl e \<Rightarrow> (req0, Inl e)
      | Inr req1 \<Rightarrow>
          (let req = req1\<lparr>session :=
                 AList.update ''cas_return_to''
                   (js_or (field (query req1) ''returnTo'') (originalUrl req1)) (session req1)\<rparr>;
               query0 = [(''service'', field options ''serviceUrl'')];
               query1 = (if truthy (field options ''renew'')
                         then AList.update ''renew'' (JStr ''true'') query0 else query0)
           in case newURL (js_to_string (field options ''casServer'')) of
                None \<Rightarrow> (req, Inl JsTypeError)
              | Some casServer \<Rightarrow>
                  (let casServer1 = casServer\<lparr>pathname :=
                         pathname casServer
                           @ (if endsWith (pathname casServer) ''/'' then [] else ''/'')
                           @ ''login''\<rparr>;
                       casServer2 = foldl (\<lambda>u (key, val).
                           u\<lparr>searchParams :=
                               searchParams_set key (js_to_string val) (searchParams u)\<rparr>)
                         casServer1 query1
                   in (req, Inr (RedirectHref casServer2)))))"

definition bounce_redirect ::
  "session_check \<Rightarrow> url_parser \<Rightarrow> js_object \<Rightarrow> request \<Rightarrow> request \<times> (js_error + response)" where
  "bounce_redirect checkSession newURL options req0 =
     (case checkSession req0 of
        Inl e \<Rightarrow> (req0, Inl e)
      | Inr req \<Rightarrow>
          if truthy (field (session req) (js_to_string (field options ''sessionName''))) then
            (if truthy (field (query req) ''redirectTo'')
             then (req, Inr (Redirect (field (query req) ''returnTo'')))
             else (req, Inr (Redirect (field (session req) ''cas_return_to''))))
          else login checkSession newURL options req)"

section \<open>destroySession and logout\<close>

text \<open>
  \<^verbatim>\<open>req.session.destroy\<close> belongs to the host's session store. It is a parameter: the
  session it leaves and the \<open>err\<close> it hands to the callback. The callback logs a
  truthy \<open>err\<close>; the second component of the result is what was logged.
\<close>

type_synonym session_destroy = "js_object \<Rightarrow> js_object \<times> jsval"

definition destroySession ::
  "session_destroy \<Rightarrow> js_object \<Rightarrow> request \<Rightarrow> request \<times> jsval list" where
  "destroySession destroy options req =
     (if truthy (field options ''destroy_session'') then
        (case destroy (session req) of
           (session', err) \<Rightarrow> (req\<lparr>session := session'\<rparr>, if truthy err then [err] else []))
      else
        (let session1 = AList.delete (js_to_string (field options ''sessionName'')) (session req);
             session2 = (if truthy (field options ''sessionInfo'')
                         then AList.delete (js_to_string (field options ''sessionInfo'')) session1
                         else session1)
         in (req\<lparr>session := session2\<rparr>, [])))"

definition logout ::
  "session_destroy \<Rightarrow> js_object \<Rightarrow> request \<Rightarrow> request \<times> jsval list \<times> response" where
  "logout destroy options req =
     (case destroySession destroy options req of
        (req', logged) \<Rightarrow>
          (req', logged, Redirect (JStr (js_to_string (field options ''casServer'') @ ''/logout''))))"

section \<open>handleTicketAjax\<close>

definition requestOptions :: "js_object \<Rightarrow> jsval \<Rightarrow> jsval \<Rightarrow> jsval" where
  "requestOptions options ticket serviceUrl =
     (if field options ''cas_version'' \<in> set [JStr ''1.0'', JStr ''2.0'', JStr ''3.0''] then
        JObj
          [(''uri'', JStr (js_to_string (field options ''casServer'')
               @ (if field options ''cas_version'' = JStr ''3.0''
                  then ''/p3/serviceValidate'' else ''/serviceValidate''))),
           (''qs'', JObj [(''service'', serviceUrl), (''ticket'', ticket)])]
      else JUndefined)"

text \<open>
  \<^verbatim>\<open>request.get\<close> is a parameter: the \<open>err\<close> and the \<open>body\<close> it hands to the callback
  for the given request options. The result is the request issued and the outcome of
  the returned promise.
\<close>

type_synonym http_get = "jsval \<Rightarrow> jsval \<times> string"

definition handleTicketAjax ::
  "http_get \<Rightarrow> xml_parser \<Rightarrow> js_object \<Rightarrow> jsval \<Rightarrow> jsval \<Rightarrow> jsval \<times> outcome" where
  "handleTicketAjax request_get parseXML options ticket serviceUrl =
     (let issued = requestOptions options ticket serviceUrl
      in case request_get issued of
           (err, body) \<Rightarrow>
             (issued, if truthy err then Reject (Val err) else validateTicket parseXML body))"

section \<open>setOptions and init\<close>

text \<open>One step of the \<^verbatim>\<open>forEach\<close> over the keys of the argument.\<close>

definition copy_option :: "jsval \<Rightarrow> js_object \<Rightarrow> string \<Rightarrow> js_object" where
  "copy_option given options option =
     (if has_own options option then AList.update option (js_prop given option) options
      else options)"

definition unsupported_version :: "jsval \<Rightarrow> string" where
  "unsupported_version v =
     ''The supplied CAS version ('' @ [CHR 0x22] @ js_to_string v @ [CHR 0x22]
       @ '') is not supported.''"

text \<open>
  The result is the \<^verbatim>\<open>options\<close> object as the call leaves it and the exception it
  throws, if any. The first test is the source's: it looks at the module's
  \<^verbatim>\<open>options\<close>, not at the argument.
\<close>

definition setOptions :: "js_object \<Rightarrow> jsval \<Rightarrow> js_object \<times> js_error option" where
  "setOptions options given =
     (if \<not> truthy (JObj options) \<or> js_typeof (JObj options) \<noteq> ''object'' then
        (options, Some (JsError ''CAS Authentication was not given a valid configuration object.''))
      else
        (case object_keys given of
           Inl e \<Rightarrow> (options, Some e)
         | Inr keys \<Rightarrow>
             (let options1 = foldl (copy_option given) options keys
              in if \<not> truthy (field options1 ''casServer'') then
                   (options1, Some (JsError ''CAS Authentication requires a casServer parameter.''))
                 else if field options1 ''cas_version'' \<noteq> JStr ''2.0''
                       \<and> field options1 ''cas_version'' \<noteq> JStr ''3.0'' then
                   (options1, Some (JsError (unsupported_version (field options1 ''cas_version''))))
                 else (options1, None))))"

definition init :: "js_object \<Rightarrow> jsval \<Rightarrow> js_object \<times> js_error option" where
  "init options given = setOptions options given"

definition setServiceUrl :: "js_object \<Rightarrow> jsval \<Rightarrow> js_object" where
  "setServiceUrl options serviceUrl = AList.update ''serviceUrl'' serviceUrl options"

section \<open>Facts about objects\<close>

lemma field_update: "field (AList.update k v kvs) k' = (if k' = k then v else field kvs k')"
  by (simp add: field_def update_conv')

lemma field_missing: "k \<notin> fst ` set kvs \<Longrightarrow> field kvs k = JUndefined"
  by (simp add: field_def map_of_eq_None_iff [symmetric])

lemma js_prop_JObj: "js_prop (JObj kvs) k = field kvs k"
  by (simp add: js_prop_def field_def split: option.splits)

subsection \<open>The copying loop of setOptions\<close>

lemma keys_copy_option: "fst ` set (copy_option given options k) = fst ` set options"
  by (auto simp: copy_option_def has_own_def dom_update)

lemma keys_foldl_copy: "fst ` set (foldl (copy_option given) options ks) = fst ` set options"
  by (induction ks arbitrary: options) (simp_all add: keys_copy_option)

lemma field_copy_option:
  "field (copy_option given options k) k' =
     (if k' = k \<and> has_own options k then js_prop given k else field options k')"
  by (simp add: copy_option_def field_update)

lemma field_foldl_copy:
  "field (foldl (copy_option given) options ks) k =
     (if k \<in> set ks \<and> has_own options k then js_prop given k else field options k)"
proof (induction ks arbitrary: options)
  case Nil
  show ?case by simp
next
  case (Cons a ks)
  have own: "has_own (copy_option given options a) k = has_own options k"
    by (simp add: has_own_def keys_copy_option)
  show ?case
    by (auto simp add: Cons.IH own field_copy_option)
qed

lemma setOptions_object:
  "setOptions options (JObj kvs) =
     (let options1 = foldl (copy_option (JObj kvs)) options (map fst kvs)
      in if \<not> truthy (field options1 ''casServer'') then
           (options1, Some (JsError ''CAS Authentication requires a casServer parameter.''))
         else if field options1 ''cas_version'' \<noteq> JStr ''2.0''
               \<and> field options1 ''cas_version'' \<noteq> JStr ''3.0'' then
           (options1, Some (JsError (unsupported_version (field options1 ''cas_version''))))
         else (options1, None))"
  by (simp add: setOptions_def object_keys_def)

lemma copy_option_unknown: "\<not> has_own options k \<Longrightarrow> copy_option given options k = options"
  by (simp add: copy_option_def)

lemma has_own_copy_option: "has_own (copy_option given options a) = has_own options"
  by (simp add: fun_eq_iff has_own_def keys_copy_option)

text \<open>
  Only the keys that \<^verbatim>\<open>options\<close> has take part in the loop, and only their values in
  the argument matter.
\<close>

lemma foldl_copy_known:
  assumes "\<And>k. has_own options k \<Longrightarrow> js_prop g k = js_prop g' k"
  shows "foldl (copy_option g) options ks
       = foldl (copy_option g') options [k \<leftarrow> ks. has_own options k]"
  using assms
proof (induction ks arbitrary: options)
  case Nil
  show ?case by simp
next
  case (Cons a ks)
  have step: "foldl (copy_option g) (copy_option g options a) ks
      = foldl (copy_option g') (copy_option g options a) [k \<leftarrow> ks. has_own options k]"
    using Cons.IH [of "copy_option g options a"] Cons.prems
    by (simp add: has_own_copy_option)
  show ?case
  proof (cases "has_own options a")
    case True
    then have "copy_option g' options a = copy_option g options a"
      using Cons.prems by (simp add: copy_option_def)
    with True step show ?thesis by simp
  next
    case False
    with step show ?thesis by (simp add: copy_option_unknown)
  qed
qed

lemma map_of_filter_key:
  "map_of [p \<leftarrow> kvs. P (fst p)] k = (if P k then map_of kvs k else None)"
  by (induction kvs) auto

lemma field_filter_key: "P k \<Longrightarrow> field [p \<leftarrow> kvs. P (fst p)] k = field kvs k"
  by (simp add: field_def map_of_filter_key)

subsection \<open>Query parameters\<close>

lemma filter_searchParams_set_same: "[p \<leftarrow> searchParams_set k v ps. fst p = k] = [(k, v)]"
proof (induction ps)
  case Nil
  show ?case by simp
next
  case (Cons q ps)
  have "[p \<leftarrow> [p \<leftarrow> ps. fst p \<noteq> k]. fst p = k] = []"
    by (simp add: filter_empty_conv)
  with Cons show ?case by (cases q) simp
qed

lemma filter_searchParams_set_other:
  "\<not> P k \<Longrightarrow> [p \<leftarrow> searchParams_set k v ps. P (fst p)] = [p \<leftarrow> ps. P (fst p)]"
proof (induction ps)
  case Nil
  then show ?case by simp
next
  case (Cons q ps)
  then have "\<And>p. (fst p \<noteq> k \<and> P (fst p)) = P (fst p)"
    by auto
  with Cons show ?case by (cases q) auto
qed

lemma key_in_iff_filter: "(k \<in> fst ` set ps) = ([p \<leftarrow> ps. fst p = k] \<noteq> [])"
  by (auto simp add: filter_empty_conv)

subsection \<open>Deleting properties\<close>

lemma delete_filter: "AList.delete a kvs = [p \<leftarrow> kvs. fst p \<noteq> a]"
  by (induction kvs) auto

lemma delete_delete_filter:
  "AList.delete b (AList.delete a kvs) = [p \<leftarrow> kvs. fst p \<noteq> a \<and> fst p \<noteq> b]"
  by (induction kvs) auto

subsection \<open>Index keys of strings\<close>

lemma digit_chars_digits: "set (digit_chars n) \<subseteq> set ''0123456789''"
proof (induction n rule: digit_chars.induct)
  case (1 n)
  show ?case
  proof (cases "n < 10")
    case True
    then have "''0123456789'' ! n \<in> set ''0123456789''"
      by (intro nth_mem) simp
    with True show ?thesis
      by (subst digit_chars.simps) simp
  next
    case False
    have "''0123456789'' ! (n mod 10) \<in> set ''0123456789''"
      by (intro nth_mem) simp
    with False 1 show ?thesis
      by (subst digit_chars.simps) simp
  qed
qed

lemma not_index_key:
  assumes "c \<in> set k" and "c \<notin> set ''0123456789''"
  shows "map_of (zip (map digit_chars ns) vs) k = None"
proof -
  have "k \<notin> set (map digit_chars ns)"
    using assms digit_chars_digits by fastforce
  then have "k \<notin> fst ` set (zip (map digit_chars ns) vs)"
    by (metis (no_types, lifting) image_iff in_set_zipE prod.collapse)
  then show ?thesis
    by (simp add: map_of_eq_None_iff)
qed

text \<open>A string has no attributes: the decoder gives an element without attributes as its text.\<close>

lemma js_prop_JStr_attrs: "js_prop (JStr s) ''$'' = JUndefined"
proof -
  have none: "map_of (own_entries (JStr s)) ''$'' = None"
    unfolding own_entries.simps by (rule not_index_key [of "CHR ''$''"]) simp_all
  show ?thesis
    unfolding js_prop_def none by simp
qed

section \<open>Claim C1: an authentication failure in the decoded response\<close>

text \<open>
  Claim C1 says that validateTicket rejects with the code and the description of the
  authentication-failure element whenever the decoded document has one, also next to
  an authentication-success element, and never resolves then. validateTicket does look
  at the failure element first, but by \<^verbatim>\<open>if (failure)\<close>: a failure element that is
  present with a falsy value (the decoder, run with \<^verbatim>\<open>explicitArray: false\<close>, gives an
  empty element as the empty string) is taken for absent. With a truthy
  authentication-success value beside it, validateTicket resolves with the user and
  the attributes of the success element.
\<close>

theorem validateTicket_empty_failure_resolves:
  assumes "parseXML body = (err, result)" and "\<not> truthy err"
    and "js_get result ''serviceresponse'' = Inr serviceresponse"
    and "has_own (own_entries serviceresponse) ''authenticationfailure''"
    and "\<not> truthy (js_prop serviceresponse ''authenticationfailure'')"
    and "truthy (js_prop serviceresponse ''authenticationsuccess'')"
  shows "validateTicket parseXML body = Resolve (JObj
      [(''user'', js_prop (js_prop serviceresponse ''authenticationsuccess'') ''user''),
       (''attributes'',
        js_prop (js_prop serviceresponse ''authenticationsuccess'') ''attributes'')])"
proof -
  have sr: "\<not> nullish serviceresponse"
    using assms(4) by (cases serviceresponse) (simp_all add: has_own_def)
  have success: "\<not> nullish (js_prop serviceresponse ''authenticationsuccess'')"
    using assms(6) by (cases "js_prop serviceresponse ''authenticationsuccess''") simp_all
  show ?thesis
    using assms(1,2,3,5,6) sr success
    by (simp add: validateTicket_def validateTicket_callback_def new_Promise_def reading_def
        js_get_def)
qed

text \<open>
  The response with an empty authentication-failure element and an
  authentication-success element for alice: validateTicket resolves with alice. And a
  response whose failure element has a text and no attribute, decoded as that text:
  reading the code of its missing attributes raises a TypeError in the callback, and
  the promise is rejected with it instead of the code and the description.
\<close>

theorem validateTicket_empty_failure_resolves_witness:
  "validateTicket
       (\<lambda>body. (JNull, JObj [(''serviceresponse'', JObj
          [(''authenticationfailure'', JStr []),
           (''authenticationsuccess'', JObj [(''user'', JStr ''alice'')])])]))
       ''<serviceResponse><authenticationFailure/><authenticationSuccess><user>alice</user></authenticationSuccess></serviceResponse>''
     = Resolve (JObj [(''user'', JStr ''alice''), (''attributes'', JUndefined)])
   \<and> validateTicket
       (\<lambda>body. (JNull, JObj [(''serviceresponse'', JObj
          [(''authenticationfailure'', JStr ''ticket not recognized'')])]))
       ''<serviceResponse><authenticationFailure>ticket not recognized</authenticationFailure></serviceResponse>''
     = Reject (Exn JsTypeError)"
proof -
  let ?sr = "JObj [(''authenticationfailure'', JStr []),
      (''authenticationsuccess'', JObj [(''user'', JStr ''alice'')])]"
  let ?result = "JObj [(''serviceresponse'', ?sr)]"
  let ?parseXML = "\<lambda>body :: string. (JNull, ?result)"
  let ?body = "''<serviceResponse><authenticationFailure/><authenticationSuccess><user>alice</user></authenticationSuccess></serviceResponse>''"
  have empty: "validateTicket ?parseXML ?body
      = Resolve (JObj [(''user'', JStr ''alice''), (''attributes'', JUndefined)])"
    using validateTicket_empty_failure_resolves [of ?parseXML ?body JNull ?result ?sr]
    by (simp add: js_get_def js_prop_JObj field_def has_own_def)
  have text_only: "validateTicket
       (\<lambda>body. (JNull, JObj [(''serviceresponse'', JObj
          [(''authenticationfailure'', JStr ''ticket not recognized'')])]))
       ''<serviceResponse><authenticationFailure>ticket not recognized</authenticationFailure></serviceResponse>''
     = Reject (Exn JsTypeError)"
    by (simp add: validateTicket_def validateTicket_callback_def new_Promise_def reading_def
        js_get_def js_prop_JObj field_def js_prop_JStr_attrs)
  from empty text_only show ?thesis
    by (intro conjI)
qed

section \<open>Claim C2: the ticket of a logout request\<close>

text \<open>
  Claim C2 says that a well-formed document without a logout-request root fails with
  the \<open>NO_VALID_CAS_LOGOUT\<close> rejection. Counterexample: for the document \<^verbatim>\<open><foo/>\<close>,
  decoded as the object with the one property \<open>foo\<close>, reading \<open>sessionindex\<close> of the
  missing root throws inside the \<^verbatim>\<open>try\<close>, and the \<^verbatim>\<open>catch\<close> rejects with the generic
  error "CAS authentication failed." instead.
\<close>

theorem getTicketFromLogoutRequest_missing_root_counterexample:
  "getTicketFromLogoutRequest (\<lambda>body. (JNull, JObj [(''foo'', JStr [])])) ''<foo/>''
     = Reject (Exn (JsError ''CAS authentication failed.''))"
  by (simp add: getTicketFromLogoutRequest_def
      getTicketFromLogoutRequest_callback_def logoutRequest_try_def js_get_def js_prop_def)

text \<open>
  Claim C2, amended: for every document that the decoder accepts, the operation
  rejects with the generic error "CAS authentication failed." when the decoded value
  or its \<open>logoutrequest\<close> root is missing (undefined or null); otherwise it resolves
  with the \<open>sessionindex\<close> value as it is when that value is truthy, and rejects with
  the \<open>NO_VALID_CAS_LOGOUT\<close> object when it is missing or falsy. None of the three is
  the "Response from CAS server was bad." error of a document that does not parse.
\<close>

theorem getTicketFromLogoutRequest_cases:
  assumes "parseXML body = (err, result)" and "\<not> truthy err"
  shows "getTicketFromLogoutRequest parseXML body =
     (if nullish result \<or> nullish (js_prop result ''logoutrequest'') then
        Reject (Exn (JsError ''CAS authentication failed.''))
      else if truthy (js_prop (js_prop result ''logoutrequest'') ''sessionindex'') then
        Resolve (js_prop (js_prop result ''logoutrequest'') ''sessionindex'')
      else
        Reject (Val (JObj
          [(''errorMessage'', JStr ''no valid CAS logout document''),
           (''code'', JStr ''NO_VALID_CAS_LOGOUT''),
           (''description'',
            JStr ''service ticket could not be found in the XML logout document'')])))
    \<and> getTicketFromLogoutRequest parseXML body
        \<noteq> Reject (Exn (JsError ''Response from CAS server was bad.''))"
  using assms
  by (simp add: getTicketFromLogoutRequest_def getTicketFromLogoutRequest_callback_def
      logoutRequest_try_def js_get_def)

text \<open>
  The amended claim at a logout request for the ticket \<open>ST-123\<close> and at a logout
  request without a session index.
\<close>

theorem getTicketFromLogoutRequest_cases_witness:
  "getTicketFromLogoutRequest
     (\<lambda>body. (JNull, JObj [(''logoutrequest'', JObj [(''sessionindex'', JStr ''ST-123'')])]))
     ''<logoutRequest><sessionIndex>ST-123</sessionIndex></logoutRequest>''
   = Resolve (JStr ''ST-123'')
   \<and> getTicketFromLogoutRequest
     (\<lambda>body. (JNull, JObj [(''logoutrequest'', JObj [(''id'', JStr ''7'')])]))
     ''<logoutRequest><id>7</id></logoutRequest>''
   = Reject (Val (JObj
          [(''errorMessage'', JStr ''no valid CAS logout document''),
           (''code'', JStr ''NO_VALID_CAS_LOGOUT''),
           (''description'',
            JStr ''service ticket could not be found in the XML logout document'')]))"
proof -
  let ?r1 = "JObj [(''logoutrequest'', JObj [(''sessionindex'', JStr ''ST-123'')])]"
  let ?r2 = "JObj [(''logoutrequest'', JObj [(''id'', JStr ''7'')])]"
  let ?p1 = "\<lambda>body :: string. (JNull, ?r1)"
  let ?p2 = "\<lambda>body :: string. (JNull, ?r2)"
  show ?thesis
    using getTicketFromLogoutRequest_cases
      [of ?p1 "''<logoutRequest><sessionIndex>ST-123</sessionIndex></logoutRequest>''" JNull ?r1]
      getTicketFromLogoutRequest_cases
      [of ?p2 "''<logoutRequest><id>7</id></logoutRequest>''" JNull ?r2]
    by (simp add: js_prop_def)
qed

section \<open>Claim C3: the validation request\<close>

text \<open>
  Claim C3: for each of the versions "1.0", "2.0" and "3.0" and every ticket and
  service URL, the request that handleTicketAjax issues goes to the CAS server base
  followed by a path, with the query parameters \<open>service\<close> (the service URL) and
  \<open>ticket\<close> (the ticket) and no others; the path is \<open>/p3/serviceValidate\<close> if and only
  if the version is "3.0", and \<open>/serviceValidate\<close> otherwise.
\<close>

theorem handleTicketAjax_request:
  assumes "field options ''cas_version'' \<in> {JStr ''1.0'', JStr ''2.0'', JStr ''3.0''}"
  shows "\<exists>path.
      fst (handleTicketAjax request_get parseXML options ticket serviceUrl)
        = JObj [(''uri'', JStr (js_to_string (field options ''casServer'') @ path)),
                (''qs'', JObj [(''service'', serviceUrl), (''ticket'', ticket)])]
      \<and> (path = ''/p3/serviceValidate'' \<longleftrightarrow> field options ''cas_version'' = JStr ''3.0'')
      \<and> (path = ''/serviceValidate'' \<longleftrightarrow> field options ''cas_version'' \<noteq> JStr ''3.0'')"
  using assms
  by (auto simp add: handleTicketAjax_def requestOptions_def Let_def split: prod.splits)

text \<open>The claim at version "3.0" and at version "2.0".\<close>

theorem handleTicketAjax_request_witness:
  "fst (handleTicketAjax (\<lambda>ro. (JNull, [])) (\<lambda>body. (JNull, JNull))
      [(''casServer'', JStr ''https://cas.example.org/cas''), (''cas_version'', JStr ''3.0'')]
      (JStr ''ST-1'') (JStr ''https://app.example.org/''))
   = JObj [(''uri'', JStr ''https://cas.example.org/cas/p3/serviceValidate''),
           (''qs'', JObj [(''service'', JStr ''https://app.example.org/''),
                          (''ticket'', JStr ''ST-1'')])]
   \<and> fst (handleTicketAjax (\<lambda>ro. (JNull, [])) (\<lambda>body. (JNull, JNull))
      [(''casServer'', JStr ''https://cas.example.org/cas''), (''cas_version'', JStr ''2.0'')]
      (JStr ''ST-1'') (JStr ''https://app.example.org/''))
   = JObj [(''uri'', JStr ''https://cas.example.org/cas/serviceValidate''),
           (''qs'', JObj [(''service'', JStr ''https://app.example.org/''),
                          (''ticket'', JStr ''ST-1'')])]"
proof -
  let ?v3 = "[(''casServer'', JStr ''https://cas.example.org/cas''), (''cas_version'', JStr ''3.0'')]"
  let ?v2 = "[(''casServer'', JStr ''https://cas.example.org/cas''), (''cas_version'', JStr ''2.0'')]"
  have h3: "field ?v3 ''cas_version'' \<in> {JStr ''1.0'', JStr ''2.0'', JStr ''3.0''}"
    by (simp add: field_def)
  have h2: "field ?v2 ''cas_version'' \<in> {JStr ''1.0'', JStr ''2.0'', JStr ''3.0''}"
    by (simp add: field_def)
  show ?thesis
    using handleTicketAjax_request [OF h3, of "\<lambda>ro. (JNull, [])" "\<lambda>body. (JNull, JNull)"
        "JStr ''ST-1''" "JStr ''https://app.example.org/''"]
      handleTicketAjax_request [OF h2, of "\<lambda>ro. (JNull, [])" "\<lambda>body. (JNull, JNull)"
        "JStr ''ST-1''" "JStr ''https://app.example.org/''"]
    by (auto simp add: field_def)
qed

section \<open>Claim C4: which configurations setOptions accepts\<close>

text \<open>
  Claim C4 says that initialization succeeds for every mapping that supplies a CAS
  server URL and a protocol version among "1.0", "2.0" and "3.0". Counterexample: on
  the freshly loaded module, the mapping with a CAS server URL and version "1.0" is
  rejected with the "not supported" error; the version test of \<^verbatim>\<open>setOptions\<close> admits
  "2.0" and "3.0" only.
\<close>

theorem setOptions_version_1_0_counterexample:
  "snd (setOptions options_init
     (JObj [(''casServer'', JStr ''https://cas.example.org/cas''), (''cas_version'', JStr ''1.0'')]))
   = Some (JsError (unsupported_version (JStr ''1.0'')))"
  by (simp add: setOptions_object options_init_def copy_option_def has_own_def js_prop_JObj
      field_def)

text \<open>
  Claim C4, amended: on the freshly loaded module, initialization with a mapping fails
  with the "requires a casServer" error when the mapping supplies no CAS server URL or
  a falsy one; otherwise it fails with the "not supported" error when the version in
  force (the one supplied, else the default "2.0") is neither the string "2.0" nor the
  string "3.0", so that "1.0" and "4.0" are both rejected; otherwise it succeeds.
\<close>

theorem setOptions_validation:
  "snd (setOptions options_init (JObj kvs)) =
     (let casServer = (case map_of kvs ''casServer'' of Some v \<Rightarrow> v | None \<Rightarrow> JNull);
          cas_version = (case map_of kvs ''cas_version'' of Some v \<Rightarrow> v | None \<Rightarrow> JStr ''2.0'')
      in if \<not> truthy casServer then
           Some (JsError ''CAS Authentication requires a casServer parameter.'')
         else if cas_version \<noteq> JStr ''2.0'' \<and> cas_version \<noteq> JStr ''3.0'' then
           Some (JsError (unsupported_version cas_version))
         else None)"
proof -
  have own: "has_own options_init ''casServer''" "has_own options_init ''cas_version''"
    by (simp_all add: has_own_def options_init_def)
  have init: "field options_init ''casServer'' = JNull"
    "field options_init ''cas_version'' = JStr ''2.0''"
    by (simp_all add: field_def options_init_def)
  have mem: "\<And>k. (k \<in> fst ` set kvs) = (map_of kvs k \<noteq> None)"
    by (simp add: map_of_eq_None_iff)
  have c: "field (foldl (copy_option (JObj kvs)) options_init (map fst kvs)) ''casServer''
      = (case map_of kvs ''casServer'' of Some v \<Rightarrow> v | None \<Rightarrow> JNull)"
    by (simp add: field_foldl_copy own init js_prop_JObj mem)
      (simp add: field_def split: option.splits)
  have v: "field (foldl (copy_option (JObj kvs)) options_init (map fst kvs)) ''cas_version''
      = (case map_of kvs ''cas_version'' of Some v \<Rightarrow> v | None \<Rightarrow> JStr ''2.0'')"
    by (simp add: field_foldl_copy own init js_prop_JObj mem)
      (simp add: field_def split: option.splits)
  show ?thesis
    unfolding setOptions_object Let_def c v by simp
qed

text \<open>The amended claim at three mappings: version "3.0", version "4.0", no CAS server.\<close>

theorem setOptions_validation_witness:
  "snd (setOptions options_init
     (JObj [(''casServer'', JStr ''https://cas.example.org/cas''), (''cas_version'', JStr ''3.0'')]))
     = None
   \<and> snd (setOptions options_init
     (JObj [(''casServer'', JStr ''https://cas.example.org/cas''), (''cas_version'', JStr ''4.0'')]))
     = Some (JsError (unsupported_version (JStr ''4.0'')))
   \<and> snd (setOptions options_init (JObj [(''cas_version'', JStr ''3.0'')]))
     = Some (JsError ''CAS Authentication requires a casServer parameter.'')"
  using setOptions_validation
    [of "[(''casServer'', JStr ''https://cas.example.org/cas''), (''cas_version'', JStr ''3.0'')]"]
    setOptions_validation
    [of "[(''casServer'', JStr ''https://cas.example.org/cas''), (''cas_version'', JStr ''4.0'')]"]
    setOptions_validation [of "[(''cas_version'', JStr ''3.0'')]"]
  by simp

section \<open>Claim C5: keys that setOptions does not know\<close>

text \<open>
  Claim C5 says that initialization fails whenever the mapping has a key outside the
  recognized ones. Counterexample: on the freshly loaded module, the mapping with a CAS
  server URL and the unknown key \<open>foo\<close> is accepted; the call throws nothing, sets
  \<open>casServer\<close> and leaves \<open>foo\<close> out.
\<close>

theorem setOptions_unknown_key_counterexample:
  "setOptions options_init
     (JObj [(''casServer'', JStr ''https://cas.example.org/cas''), (''foo'', JNum 1)])
   = (AList.update ''casServer'' (JStr ''https://cas.example.org/cas'') options_init, None)"
  by (simp add: setOptions_object options_init_def copy_option_def has_own_def js_prop_JObj
      field_def)

text \<open>
  Claim C5, amended: initialization ignores every key of the mapping that the module's
  \<^verbatim>\<open>options\<close> object does not have. The call does exactly what it does for the mapping
  without those keys (the same resulting options, the same error or none), and the
  resulting options have the keys they had before, so an unknown key is never stored.
\<close>

theorem setOptions_ignores_unknown_keys:
  "setOptions options (JObj kvs) = setOptions options (JObj [p \<leftarrow> kvs. has_own options (fst p)])
   \<and> fst ` set (fst (setOptions options (JObj kvs))) = fst ` set options"
proof -
  let ?known = "[p \<leftarrow> kvs. has_own options (fst p)]"
  have keys: "map fst ?known = [k \<leftarrow> map fst kvs. has_own options k]"
    by (simp add: filter_map comp_def)
  have "foldl (copy_option (JObj kvs)) options (map fst kvs)
      = foldl (copy_option (JObj ?known)) options [k \<leftarrow> map fst kvs. has_own options k]"
    by (rule foldl_copy_known) (simp add: js_prop_JObj field_filter_key)
  also have "\<dots> = foldl (copy_option (JObj ?known)) options (map fst ?known)"
    by (simp only: keys)
  finally have same: "foldl (copy_option (JObj kvs)) options (map fst kvs)
      = foldl (copy_option (JObj ?known)) options (map fst ?known)" .
  have first: "setOptions options (JObj kvs) = setOptions options (JObj ?known)"
    unfolding setOptions_object same ..
  have second: "fst ` set (fst (setOptions options (JObj kvs))) = fst ` set options"
    by (simp add: setOptions_object Let_def keys_foldl_copy)
  from first second show ?thesis ..
qed

text \<open>The amended claim at the mapping of the counterexample.\<close>

theorem setOptions_ignores_unknown_keys_witness:
  "setOptions options_init
     (JObj [(''casServer'', JStr ''https://cas.example.org/cas''), (''foo'', JNum 1)])
   = setOptions options_init (JObj [(''casServer'', JStr ''https://cas.example.org/cas'')])
   \<and> fst ` set (fst (setOptions options_init
     (JObj [(''casServer'', JStr ''https://cas.example.org/cas''), (''foo'', JNum 1)])))
     = fst ` set options_init"
proof -
  have known: "[p \<leftarrow> [(''casServer'', JStr ''https://cas.example.org/cas''), (''foo'', JNum 1)].
      has_own options_init (fst p)] = [(''casServer'', JStr ''https://cas.example.org/cas'')]"
    by (simp add: has_own_def options_init_def)
  show ?thesis
    using setOptions_ignores_unknown_keys
      [of options_init "[(''casServer'', JStr ''https://cas.example.org/cas''), (''foo'', JNum 1)]"]
    unfolding known .
qed

section \<open>Claim C6: an argument that is not an object\<close>

text \<open>
  Claim C6 says that initialization with an argument that is not an object fails with
  the configuration error. The test that would do so looks at the module's
  \<^verbatim>\<open>options\<close>, which is always an object, so it never fires. What setOptions does
  instead: for undefined and null, \<^verbatim>\<open>Object.keys\<close> throws a TypeError; a number or a
  boolean has no keys and is treated as the empty mapping is.
\<close>

theorem setOptions_non_object_argument:
  "setOptions options JUndefined = (options, Some JsTypeError)
   \<and> setOptions options JNull = (options, Some JsTypeError)
   \<and> setOptions options (JNum n) = setOptions options (JObj [])
   \<and> setOptions options (JBool b) = setOptions options (JObj [])"
  by (simp add: setOptions_def object_keys_def)

text \<open>
  On the freshly loaded module the call with undefined throws the TypeError, and the
  call with the number 42 fails only because no CAS server is set yet; once a CAS server
  is set, the call with 42 succeeds.
\<close>

theorem setOptions_non_object_argument_witness:
  "setOptions options_init JUndefined = (options_init, Some JsTypeError)
   \<and> setOptions options_init (JNum 42)
       = (options_init, Some (JsError ''CAS Authentication requires a casServer parameter.''))
   \<and> setOptions (AList.update ''casServer'' (JStr ''https://cas.example.org/cas'') options_init)
        (JNum 42)
       = (AList.update ''casServer'' (JStr ''https://cas.example.org/cas'') options_init, None)"
  using setOptions_non_object_argument [of options_init 42 True]
    setOptions_non_object_argument [of "AList.update ''casServer'' (JStr ''https://cas.example.org/cas'') options_init" 42 True]
  by (simp add: setOptions_object options_init_def field_def)

section \<open>Claim C7: validateTicket on a document without a serviceResponse root\<close>

text \<open>
  Claim C7 says that validateTicket answers a decoded document with neither element by
  the generic "authentication failed" rejection. What validateTicket does when the
  decoder reports no error and the decoded document has no \<open>serviceresponse\<close> root:
  the callback reads a property of the missing root outside any \<^verbatim>\<open>try\<close>, which
  raises a TypeError, and the promise is rejected with that TypeError, not with the
  generic error.
\<close>

theorem validateTicket_missing_root_rejects:
  assumes "parseXML body = (err, result)" and "\<not> truthy err"
    and "\<not> nullish result" and "nullish (js_prop result ''serviceresponse'')"
  shows "validateTicket parseXML body = Reject (Exn JsTypeError)"
  using assms
  by (simp add: validateTicket_def validateTicket_callback_def new_Promise_def reading_def
      js_get_def)

text \<open>
  The well-formed document \<^verbatim>\<open><foo/>\<close>, decoded as the object with the one property
  \<open>foo\<close>: the promise of validateTicket is rejected with the TypeError, where
  getTicketFromLogoutRequest, which reads the same way inside a \<^verbatim>\<open>try\<close>, rejects with
  the generic error.
\<close>

theorem validateTicket_missing_root_rejects_witness:
  "validateTicket (\<lambda>body. (JNull, JObj [(''foo'', JStr [])])) ''<foo/>''
     = Reject (Exn JsTypeError)
   \<and> getTicketFromLogoutRequest (\<lambda>body. (JNull, JObj [(''foo'', JStr [])])) ''<foo/>''
       = Reject (Exn (JsError ''CAS authentication failed.''))"
  using validateTicket_missing_root_rejects [of "\<lambda>body. (JNull, JObj [(''foo'', JStr [])])" "''<foo/>''" JNull
      "JObj [(''foo'', JStr [])]"]
  by (simp add: getTicketFromLogoutRequest_def
      getTicketFromLogoutRequest_callback_def logoutRequest_try_def js_get_def
      js_prop_JObj field_def)

section \<open>Claim C8: the login redirect\<close>

text \<open>
  Claim C8 says that for every configuration the redirect URL has no \<open>renew\<close>
  parameter at all when renew is false or unset. Counterexample: renew is false and
  the configured CAS server is \<^verbatim>\<open>https://cas.example.org/cas?renew=false\<close>, whose URL
  object has the one query parameter \<open>renew\<close> with the value \<open>false\<close>. login sets
  \<open>service\<close> on that URL object and removes nothing, so the redirect URL carries
  \<open>renew=false\<close>.
\<close>

theorem login_renew_counterexample:
  "field (AList.update ''serviceUrl'' (JStr ''https://app.example.org/cas/validate'')
        (AList.update ''casServer'' (JStr ''https://cas.example.org/cas?renew=false'')
          options_init)) ''renew'' = JBool False
   \<and> snd (login Inr
      (\<lambda>s. if s = ''https://cas.example.org/cas?renew=false''
            then Some \<lparr>origin = ''https://cas.example.org'', pathname = ''/cas'',
                       searchParams = [(''renew'', ''false'')], hash = []\<rparr>
            else None)
      (AList.update ''serviceUrl'' (JStr ''https://app.example.org/cas/validate'')
        (AList.update ''casServer'' (JStr ''https://cas.example.org/cas?renew=false'')
          options_init))
      \<lparr>session = [], query = [], originalUrl = JStr ''/private''\<rparr>)
   = Inr (RedirectHref
       \<lparr>origin = ''https://cas.example.org'', pathname = ''/cas/login'',
        searchParams = [(''renew'', ''false''),
                        (''service'', ''https://app.example.org/cas/validate'')],
        hash = []\<rparr>)"
  by (simp add: login_def options_init_def field_def endsWith_def)

text \<open>
  Claim C8, amended: when the session check passes and the configured CAS server parses
  as a URL, login redirects to that URL with its path extended by \<open>/login\<close> (by
  \<open>login\<close> after a trailing slash) and with exactly one \<open>service\<close> parameter, the
  configured service URL as a string. With renew configured truthy the URL has exactly
  one \<open>renew\<close> parameter, with the value \<open>true\<close>. With renew falsy or unset login
  adds none and removes none: the \<open>renew\<close> parameters are those that the CAS server
  URL brought along, so for a CAS server URL without one, \<open>renew\<close> is present if and
  only if renew is configured truthy. Every other parameter, the origin and the
  fragment are those of the CAS server URL.
\<close>

theorem login_redirect_url:
  assumes "checkSession req0 = Inr req1"
    and "newURL (js_to_string (field options ''casServer'')) = Some base"
  shows "\<exists>u. snd (login checkSession newURL options req0) = Inr (RedirectHref u)
    \<and> origin u = origin base \<and> hash u = hash base
    \<and> pathname u = pathname base @ (if endsWith (pathname base) ''/'' then ''login'' else ''/login'')
    \<and> [p \<leftarrow> searchParams u. fst p = ''service'']
        = [(''service'', js_to_string (field options ''serviceUrl''))]
    \<and> [p \<leftarrow> searchParams u. fst p = ''renew'']
        = (if truthy (field options ''renew'') then [(''renew'', ''true'')]
           else [p \<leftarrow> searchParams base. fst p = ''renew''])
    \<and> [p \<leftarrow> searchParams u. fst p \<noteq> ''service'' \<and> fst p \<noteq> ''renew'']
        = [p \<leftarrow> searchParams base. fst p \<noteq> ''service'' \<and> fst p \<noteq> ''renew'']
    \<and> (''renew'' \<notin> fst ` set (searchParams base) \<longrightarrow>
         (''renew'' \<in> fst ` set (searchParams u)) = truthy (field options ''renew''))"
proof (cases "truthy (field options ''renew'')")
  case True
  let ?s = "searchParams_set ''service'' (js_to_string (field options ''serviceUrl''))
              (searchParams base)"
  let ?u = "base\<lparr>pathname := pathname base
                @ (if endsWith (pathname base) ''/'' then [] else ''/'') @ ''login'',
              searchParams := searchParams_set ''renew'' ''true'' ?s\<rparr>"
  have run: "snd (login checkSession newURL options req0) = Inr (RedirectHref ?u)"
    using assms True by (simp add: login_def Let_def)
  have service: "[p \<leftarrow> searchParams ?u. fst p = ''service'']
      = [(''service'', js_to_string (field options ''serviceUrl''))]"
    using filter_searchParams_set_other [of "\<lambda>k. k = ''service''" "''renew''" "''true''" ?s]
    by (simp add: filter_searchParams_set_same)
  have renew: "[p \<leftarrow> searchParams ?u. fst p = ''renew''] = [(''renew'', ''true'')]"
    by (simp add: filter_searchParams_set_same)
  have rest: "[p \<leftarrow> searchParams ?u. fst p \<noteq> ''service'' \<and> fst p \<noteq> ''renew'']
      = [p \<leftarrow> searchParams base. fst p \<noteq> ''service'' \<and> fst p \<noteq> ''renew'']"
    using filter_searchParams_set_other
        [of "\<lambda>k. k \<noteq> ''service'' \<and> k \<noteq> ''renew''" "''renew''" "''true''" ?s]
      filter_searchParams_set_other
        [of "\<lambda>k. k \<noteq> ''service'' \<and> k \<noteq> ''renew''" "''service''"
          "js_to_string (field options ''serviceUrl'')" "searchParams base"]
    by simp
  have "''renew'' \<in> fst ` set (searchParams ?u)"
    unfolding key_in_iff_filter renew by simp
  with run service renew rest True show ?thesis
    by (intro exI [of _ ?u]) simp
next
  case False
  let ?u = "base\<lparr>pathname := pathname base
                @ (if endsWith (pathname base) ''/'' then [] else ''/'') @ ''login'',
              searchParams := searchParams_set ''service''
                (js_to_string (field options ''serviceUrl'')) (searchParams base)\<rparr>"
  have run: "snd (login checkSession newURL options req0) = Inr (RedirectHref ?u)"
    using assms False by (simp add: login_def Let_def)
  have service: "[p \<leftarrow> searchParams ?u. fst p = ''service'']
      = [(''service'', js_to_string (field options ''serviceUrl''))]"
    by (simp add: filter_searchParams_set_same)
  have renew: "[p \<leftarrow> searchParams ?u. fst p = ''renew'']
      = [p \<leftarrow> searchParams base. fst p = ''renew'']"
    using filter_searchParams_set_other [of "\<lambda>k. k = ''renew''" "''service''"
        "js_to_string (field options ''serviceUrl'')" "searchParams base"]
    by simp
  have rest: "[p \<leftarrow> searchParams ?u. fst p \<noteq> ''service'' \<and> fst p \<noteq> ''renew'']
      = [p \<leftarrow> searchParams base. fst p \<noteq> ''service'' \<and> fst p \<noteq> ''renew'']"
    using filter_searchParams_set_other
        [of "\<lambda>k. k \<noteq> ''service'' \<and> k \<noteq> ''renew''" "''service''"
          "js_to_string (field options ''serviceUrl'')" "searchParams base"]
    by simp
  have absent: "''renew'' \<notin> fst ` set (searchParams base) \<longrightarrow>
      ''renew'' \<notin> fst ` set (searchParams ?u)"
    unfolding key_in_iff_filter renew by simp
  with run service renew rest False show ?thesis
    by (intro exI [of _ ?u]) simp
qed


text \<open>
  The amended claim for the CAS server \<^verbatim>\<open>https://cas.example.org/cas\<close>, once with
  renew configured true and once with the initial renew, which is false.
\<close>

theorem login_redirect_url_witness:
  "snd (login Inr
      (\<lambda>s. if s = ''https://cas.example.org/cas''
            then Some \<lparr>origin = ''https://cas.example.org'', pathname = ''/cas'',
                       searchParams = [], hash = []\<rparr>
            else None)
      (AList.update ''renew'' (JBool True)
        (AList.update ''serviceUrl'' (JStr ''https://app.example.org/cas/validate'')
          (AList.update ''casServer'' (JStr ''https://cas.example.org/cas'') options_init)))
      \<lparr>session = [], query = [], originalUrl = JStr ''/private''\<rparr>)
   = Inr (RedirectHref
       \<lparr>origin = ''https://cas.example.org'', pathname = ''/cas/login'',
        searchParams = [(''service'', ''https://app.example.org/cas/validate''),
                        (''renew'', ''true'')],
        hash = []\<rparr>)
   \<and> snd (login Inr
      (\<lambda>s. if s = ''https://cas.example.org/cas''
            then Some \<lparr>origin = ''https://cas.example.org'', pathname = ''/cas'',
                       searchParams = [], hash = []\<rparr>
            else None)
      (AList.update ''serviceUrl'' (JStr ''https://app.example.org/cas/validate'')
        (AList.update ''casServer'' (JStr ''https://cas.example.org/cas'') options_init))
      \<lparr>session = [], query = [], originalUrl = JStr ''/private''\<rparr>)
   = Inr (RedirectHref
       \<lparr>origin = ''https://cas.example.org'', pathname = ''/cas/login'',
        searchParams = [(''service'', ''https://app.example.org/cas/validate'')],
        hash = []\<rparr>)"
proof -
  let ?newURL = "\<lambda>s. if s = ''https://cas.example.org/cas''
            then Some \<lparr>origin = ''https://cas.example.org'', pathname = ''/cas'',
                       searchParams = [], hash = []\<rparr>
            else None"
  let ?base = "\<lparr>origin = ''https://cas.example.org'', pathname = ''/cas'',
                 searchParams = [], hash = []\<rparr>"
  let ?req = "\<lparr>session = [], query = [], originalUrl = JStr ''/private''\<rparr>"
  let ?plain = "AList.update ''serviceUrl'' (JStr ''https://app.example.org/cas/validate'')
        (AList.update ''casServer'' (JStr ''https://cas.example.org/cas'') options_init)"
  let ?renew = "AList.update ''renew'' (JBool True) ?plain"
  have check: "Inr ?req = (Inr ?req :: js_error + request)" ..
  have url1: "?newURL (js_to_string (field ?renew ''casServer'')) = Some ?base"
    by (simp add: options_init_def field_def)
  have url2: "?newURL (js_to_string (field ?plain ''casServer'')) = Some ?base"
    by (simp add: options_init_def field_def)
  show ?thesis
    using login_redirect_url [of Inr ?req ?req ?newURL ?renew ?base, OF check url1]
      login_redirect_url [of Inr ?req ?req ?newURL ?plain ?base, OF check url2]
    by (simp add: login_def options_init_def field_def endsWith_def)
qed

section \<open>Claim C9: logout without destroying the session\<close>

text \<open>
  Claim C9: with the destroy-session flag falsy, logout leaves the request as it was
  except that the session loses the session-user key and, only when a session-info key
  is configured, that key; every other session field stays, and nothing is logged since
  the session store is not called. With the flag truthy, the error that the store
  reports is logged when there is one. In both cases logout ends with the redirect to
  the CAS server base followed by \<open>/logout\<close>: no error of the store is surfaced.
\<close>

theorem logout_frame:
  "(\<not> truthy (field options ''destroy_session'') \<longrightarrow>
      fst (logout destroy options req) = req\<lparr>session :=
        [p \<leftarrow> session req.
           fst p \<noteq> js_to_string (field options ''sessionName'')
           \<and> (truthy (field options ''sessionInfo'') \<longrightarrow>
                fst p \<noteq> js_to_string (field options ''sessionInfo''))]\<rparr>
      \<and> fst (snd (logout destroy options req)) = [])
   \<and> (truthy (field options ''destroy_session'') \<longrightarrow>
        fst (snd (logout destroy options req)) =
          (if truthy (snd (destroy (session req))) then [snd (destroy (session req))] else []))
   \<and> snd (snd (logout destroy options req))
        = Redirect (JStr (js_to_string (field options ''casServer'') @ ''/logout''))"
  by (simp add: logout_def destroySession_def Let_def delete_delete_filter delete_filter
      split: prod.splits)

text \<open>
  The claim at a session with a user, user information and a cart, the flag being
  false; and at a store that reports an error, the flag being true.
\<close>

theorem logout_frame_witness:
  "logout (\<lambda>s. ([], JNull))
     (AList.update ''casServer'' (JStr ''https://cas.example.org/cas'') options_init)
     \<lparr>session = [(''cas_user'', JStr ''alice''), (''cart'', JNum 3),
                  (''cas_userinfo'', JObj [(''mail'', JStr ''alice@example.org'')])],
      query = [], originalUrl = JStr ''/logout''\<rparr>
   = (\<lparr>session = [(''cart'', JNum 3)], query = [], originalUrl = JStr ''/logout''\<rparr>,
      [], Redirect (JStr ''https://cas.example.org/cas/logout''))
   \<and> logout (\<lambda>s. ([], JStr ''store down''))
     (AList.update ''destroy_session'' (JBool True)
       (AList.update ''casServer'' (JStr ''https://cas.example.org/cas'') options_init))
     \<lparr>session = [(''cas_user'', JStr ''alice''), (''cart'', JNum 3)],
      query = [], originalUrl = JStr ''/logout''\<rparr>
   = (\<lparr>session = [], query = [], originalUrl = JStr ''/logout''\<rparr>,
      [JStr ''store down''], Redirect (JStr ''https://cas.example.org/cas/logout''))"
  using logout_frame [of "AList.update ''casServer'' (JStr ''https://cas.example.org/cas'') options_init"
      "\<lambda>s. ([], JNull)"
      "\<lparr>session = [(''cas_user'', JStr ''alice''), (''cart'', JNum 3),
                  (''cas_userinfo'', JObj [(''mail'', JStr ''alice@example.org'')])],
      query = [], originalUrl = JStr ''/logout''\<rparr>"]
    logout_frame [of "AList.update ''destroy_session'' (JBool True)
       (AList.update ''casServer'' (JStr ''https://cas.example.org/cas'') options_init)"
      "\<lambda>s. ([], JStr ''store down'')"
      "\<lparr>session = [(''cas_user'', JStr ''alice''), (''cart'', JNum 3)],
      query = [], originalUrl = JStr ''/logout''\<rparr>"]
  by (simp add: logout_def destroySession_def options_init_def field_def)

section \<open>Claim C10: bounce_redirect with a validated session\<close>

text \<open>
  Claim C10: when the session check passes and the session holds a truthy session-user
  value, bounce_redirect tests the query parameter \<open>redirectTo\<close> and redirects to the
  value of the query parameter \<open>returnTo\<close>; the stored \<open>cas_return_to\<close> is the target
  only when \<open>redirectTo\<close> is missing or falsy. So a request with \<open>redirectTo\<close> and
  without \<open>returnTo\<close> is redirected to undefined.
\<close>

theorem bounce_redirect_authenticated:
  assumes "checkSession req0 = Inr req"
    and "truthy (field (session req) (js_to_string (field options ''sessionName'')))"
  shows "bounce_redirect checkSession newURL options req0 =
      (req, Inr (Redirect
        (if truthy (field (query req) ''redirectTo'') then field (query req) ''returnTo''
         else field (session req) ''cas_return_to'')))
    \<and> (truthy (field (query req) ''redirectTo'') \<and> \<not> has_own (query req) ''returnTo'' \<longrightarrow>
         bounce_redirect checkSession newURL options req0 = (req, Inr (Redirect JUndefined)))"
  using assms
  by (simp add: bounce_redirect_def has_own_def field_missing)

text \<open>
  The claim at a request with \<open>redirectTo\<close> only, and at a request with \<open>returnTo\<close>
  only.
\<close>

theorem bounce_redirect_authenticated_witness:
  "bounce_redirect Inr (\<lambda>s. None) options_init
     \<lparr>session = [(''cas_user'', JStr ''alice''), (''cas_return_to'', JStr ''/private'')],
      query = [(''redirectTo'', JStr ''/reports'')], originalUrl = JStr ''/cas/login''\<rparr>
   = (\<lparr>session = [(''cas_user'', JStr ''alice''), (''cas_return_to'', JStr ''/private'')],
      query = [(''redirectTo'', JStr ''/reports'')], originalUrl = JStr ''/cas/login''\<rparr>,
      Inr (Redirect JUndefined))
   \<and> bounce_redirect Inr (\<lambda>s. None) options_init
     \<lparr>session = [(''cas_user'', JStr ''alice''), (''cas_return_to'', JStr ''/private'')],
      query = [(''returnTo'', JStr ''/reports'')], originalUrl = JStr ''/cas/login''\<rparr>
   = (\<lparr>session = [(''cas_user'', JStr ''alice''), (''cas_return_to'', JStr ''/private'')],
      query = [(''returnTo'', JStr ''/reports'')], originalUrl = JStr ''/cas/login''\<rparr>,
      Inr (Redirect (JStr ''/private'')))"
proof -
  let ?s = "[(''cas_user'', JStr ''alice''), (''cas_return_to'', JStr ''/private'')]"
  let ?r1 = "\<lparr>session = ?s, query = [(''redirectTo'', JStr ''/reports'')],
      originalUrl = JStr ''/cas/login''\<rparr>"
  let ?r2 = "\<lparr>session = ?s, query = [(''returnTo'', JStr ''/reports'')],
      originalUrl = JStr ''/cas/login''\<rparr>"
  have c1: "Inr ?r1 = (Inr ?r1 :: js_error + request)" ..
  have c2: "Inr ?r2 = (Inr ?r2 :: js_error + request)" ..
  have u1: "truthy (field (session ?r1) (js_to_string (field options_init ''sessionName'')))"
    by (simp add: field_def options_init_def)
  have u2: "truthy (field (session ?r2) (js_to_string (field options_init ''sessionName'')))"
    by (simp add: field_def options_init_def)
  show ?thesis
    using bounce_redirect_authenticated [of Inr ?r1 ?r1 options_init "\<lambda>s. None", OF c1 u1]
      bounce_redirect_authenticated [of Inr ?r2 ?r2 options_init "\<lambda>s. None", OF c2 u2]
    by (simp add: field_def has_own_def)
qed

end
